theory Spec2Isabelle
  imports Main "HOL-Library.Word"
begin

section \<open>The fiber middleware of sentry-go (package sentryfiber)\<close>

text \<open>
  The development follows \<^verbatim>\<open>fiber/sentryfiber.go\<close>: the configuration and
  \<^verbatim>\<open>New\<close>, the request snapshot builder \<^verbatim>\<open>convert\<close>, the middleware
  \<^verbatim>\<open>handle\<close> with its deferred \<^verbatim>\<open>recoverWithSentry\<close>, the classifier
  \<^verbatim>\<open>isBrokenPipeError\<close> and the accessor \<^verbatim>\<open>GetHubFromContext\<close>.
  A Go pointer that may be nil is an \<open>option\<close>; a panic is a value of its own in the
  result of a function, never an unspecified HOL value.
\<close>

subsection \<open>Configuration and \<^verbatim>\<open>New\<close>\<close>

text \<open>\<^verbatim>\<open>time.Duration\<close> is an \<^verbatim>\<open>int64\<close> counting nanoseconds.\<close>

type_synonym Duration = "64 word"

definition Second :: Duration where
  "Second = 1000000000"

record handler =
  repanic :: bool
  waitForDelivery :: bool
  timeout :: Duration

record Options =
  Repanic :: bool
  WaitForDelivery :: bool
  Timeout :: Duration

text \<open>
  The receiver that \<^verbatim>\<open>New\<close> builds (lines 44 to 61). The variadic parameter is the
  list of the options passed; \<^verbatim>\<open>options[0]\<close> is read only when the length is 1.
\<close>

definition New_handler :: "Options list \<Rightarrow> handler" where
  "New_handler options =
     (let opts = (case options of
                    [o1] \<Rightarrow> o1
                  | _ \<Rightarrow> \<lparr>Repanic = True, WaitForDelivery = True, Timeout = 2 * Second\<rparr>);
          timeout = (if Timeout opts = 0 then 2 * Second else Timeout opts)
      in \<lparr>repanic = Repanic opts, waitForDelivery = WaitForDelivery opts, timeout = timeout\<rparr>)"

subsection \<open>Failure values and \<^verbatim>\<open>isBrokenPipeError\<close>\<close>

text \<open>
  The values a panic can carry, as far as the middleware tells them apart. An error is a
  \<^verbatim>\<open>*net.OpError\<close>, a \<^verbatim>\<open>*os.SyscallError\<close>, a \<^verbatim>\<open>runtime.Error\<close> raised
  by the Go runtime, or any other error, given by the text of its \<^verbatim>\<open>Error()\<close>. The
  pointers inside a failure value are not nil, and \<^verbatim>\<open>recover()\<close> yields nil only when
  nothing panicked: a recovered value is \<open>Some v\<close>.
\<close>

record OpFields =
  Op :: string
  Net :: string
  Source :: "string option"
  Addr :: "string option"

datatype go_error =
    OtherError string
  | RuntimeError string
  | SyscallError string go_error
  | OpError OpFields go_error

datatype go_value =
    StringValue string
  | ErrorValue go_error

text \<open>
  \<^verbatim>\<open>Error()\<close> of the standard library's error types:
  \<^verbatim>\<open>e.Syscall + ": " + e.Err.Error()\<close> for \<^verbatim>\<open>os.SyscallError\<close>, and the operation,
  network and addresses before the wrapped error's text for \<^verbatim>\<open>net.OpError\<close>.
\<close>

fun Error :: "go_error \<Rightarrow> string" where
  "Error (OtherError s) = s"
| "Error (RuntimeError s) = s"
| "Error (SyscallError sc e) = sc @ '': '' @ Error e"
| "Error (OpError f e) =
     Op f
     @ (if Net f \<noteq> [] then '' '' @ Net f else [])
     @ (case Source f of None \<Rightarrow> [] | Some s \<Rightarrow> '' '' @ s)
     @ (case Addr f of
          None \<Rightarrow> []
        | Some a \<Rightarrow> (case Source f of None \<Rightarrow> '' '' | Some s \<Rightarrow> ''->'') @ a)
     @ '': '' @ Error e"

text \<open>\<^verbatim>\<open>strings.HasPrefix\<close> and \<^verbatim>\<open>strings.Contains\<close> on byte strings.\<close>

fun HasPrefix :: "string \<Rightarrow> string \<Rightarrow> bool" where
  "HasPrefix s [] = True"
| "HasPrefix [] (p # ps) = False"
| "HasPrefix (c # s) (p # ps) = (c = p \<and> HasPrefix s ps)"

fun Contains :: "string \<Rightarrow> string \<Rightarrow> bool" where
  "Contains [] sub = (sub = [])"
| "Contains (c # s) sub = (HasPrefix (c # s) sub \<or> Contains s sub)"

text \<open>
  What the middleware calls outside this package and cannot be read off its source is a
  parameter of the model:
  \<^item> \<open>ToLower\<close>: \<^verbatim>\<open>strings.ToLower\<close>;
  \<^item> \<open>url_Parse\<close>: \<^verbatim>\<open>url.Parse\<close>, \<open>None\<close> when it returns an error (and a nil URL);
  \<^item> \<open>CanonicalMIMEHeaderKey\<close>: the key under which \<^verbatim>\<open>http.Header\<close> files an entry;
  \<^item> \<open>cookie_text\<close>: the sanitised \<^verbatim>\<open>name=value\<close> that \<^verbatim>\<open>AddCookie\<close> writes;
  \<^item> \<open>report_id\<close>: the identifier the reporting client gives a submission, \<open>None\<close>
    when the client drops the report.
\<close>

record URL =
  Scheme :: string
  URL_Host :: string
  Path :: string
  RawQuery :: string

record http_Request =
  Method :: string
  Url :: "URL option"
  Header :: "string \<rightharpoonup> string list"
  Host :: string
  RemoteAddr :: string

type_synonym hub_ref = nat
type_synonym EventID = string

record env =
  ToLower :: "string \<Rightarrow> string"
  url_Parse :: "string \<Rightarrow> URL option"
  CanonicalMIMEHeaderKey :: "string \<Rightarrow> string"
  cookie_text :: "string \<Rightarrow> string \<Rightarrow> string"
  report_id :: "hub_ref \<Rightarrow> http_Request \<Rightarrow> go_value \<Rightarrow> EventID option"

text \<open>Lines 132 to 142: two type assertions, then the two substring tests.\<close>

definition isBrokenPipeError :: "env \<Rightarrow> go_value \<Rightarrow> bool" where
  "isBrokenPipeError E err =
     (case err of
        ErrorValue (OpError f (SyscallError sc e)) \<Rightarrow>
          (if Contains (ToLower E (Error (SyscallError sc e))) ''broken pipe''
              \<or> Contains (ToLower E (Error (SyscallError sc e))) ''connection reset by peer''
           then True else False)
      | _ \<Rightarrow> False)"

subsection \<open>The native request, hubs and the world\<close>

text \<open>
  The \<^verbatim>\<open>fasthttp.RequestCtx\<close> behind a \<^verbatim>\<open>fiber.Ctx\<close>, by the accessors the
  middleware calls: \<^verbatim>\<open>ctx.Host()\<close> is \<^verbatim>\<open>ctx.URI().Host()\<close>; \<open>header_VisitAll\<close>
  and \<open>header_VisitAllCookie\<close> are the pairs the two visitors are called with, in order;
  \<open>ctx_Locals\<close> is the per-request store behind \<^verbatim>\<open>ctx.Locals\<close>, where \<open>None\<close> is
  the nil interface, \<open>HubValue\<close> a \<^verbatim>\<open>*sentry.Hub\<close> (nil or not) and \<open>OtherValue\<close> a
  value of any other type, given by the name of that type. The body is left out: \<^verbatim>\<open>r.Body\<close> is a reader over the native
  buffer, with no copy taken.
\<close>

datatype local_value =
    HubValue "hub_ref option"
  | OtherValue string

record RequestCtx =
  ctx_Method :: string
  uri_Scheme :: string
  uri_Host :: string
  uri_Path :: string
  uri_QueryString :: string
  header_VisitAll :: "(string \<times> string) list"
  header_VisitAllCookie :: "(string \<times> string) list"
  ctx_RemoteAddr :: string
  ctx_Locals :: "string \<rightharpoonup> local_value"
  ctx_HubValue :: "hub_ref option"

record Hub =
  hub_client :: nat
  scope_tags :: "(string \<times> string) list"
  scope_request :: "http_Request option"

text \<open>
  The calls that leave the package are recorded in order: a line written with
  \<^verbatim>\<open>sentry.Logger.Printf\<close>, a submission with \<^verbatim>\<open>hub.RecoverWithContext\<close> (the
  request is the value stored under \<^verbatim>\<open>sentry.RequestContextKey\<close>), and a
  \<^verbatim>\<open>hub.Flush\<close> with its timeout.
\<close>

datatype event =
    Logger_Printf go_value
  | Hub_RecoverWithContext hub_ref http_Request go_value
  | Hub_Flush hub_ref Duration

text \<open>
  The hubs live in a store: \<open>hubs w p\<close> is the hub at address \<open>p\<close>, and the addresses
  below \<open>next_hub w\<close> are the allocated ones.
\<close>

record world =
  hubs :: "hub_ref \<Rightarrow> Hub"
  next_hub :: hub_ref
  CurrentHub :: hub_ref
  request :: RequestCtx
  trace :: "event list"

definition valuesKey :: string where
  "valuesKey = ''sentry''"

definition nil_dereference :: go_value where
  "nil_dereference =
     ErrorValue (RuntimeError ''runtime error: invalid memory address or nil pointer dereference'')"

text \<open>
  The reporting client (package \<^verbatim>\<open>sentry\<close>) is not among the sources; section 6 of
  the specification gives the contracts of the five operations the middleware calls.
\<close>

text \<open>
  Modelled from the spec: \<^verbatim>\<open>sentry.GetHubFromContext\<close> is missing. It returns the hub
  attached to an outer context value, or nil when there is none.
\<close>

definition sentry_GetHubFromContext :: "world \<Rightarrow> hub_ref option" where
  "sentry_GetHubFromContext w = ctx_HubValue (request w)"

text \<open>
  Modelled from the spec: \<^verbatim>\<open>Hub.Clone\<close> is missing. Cloning yields a new hub with a
  scope of its own, copied from the original, and the same client.
\<close>

definition Hub_Clone :: "hub_ref \<Rightarrow> world \<Rightarrow> hub_ref \<times> world" where
  "Hub_Clone p w =
     (next_hub w, w\<lparr>hubs := (hubs w)(next_hub w := hubs w p), next_hub := Suc (next_hub w)\<rparr>)"

text \<open>
  Modelled from the spec: \<^verbatim>\<open>Scope.SetRequest\<close> is missing. It sets the request
  metadata of the hub's scope.
\<close>

definition Scope_SetRequest :: "hub_ref \<Rightarrow> http_Request option \<Rightarrow> world \<Rightarrow> world" where
  "Scope_SetRequest p r w = w\<lparr>hubs := (hubs w)(p := (hubs w p)\<lparr>scope_request := r\<rparr>)\<rparr>"

text \<open>
  Modelled from the spec: \<^verbatim>\<open>Hub.RecoverWithContext\<close> is missing. It takes the failure
  and a context carrying the request, and returns an optional report identifier.
\<close>

definition RecoverWithContext ::
  "env \<Rightarrow> hub_ref \<Rightarrow> http_Request \<Rightarrow> go_value \<Rightarrow> world \<Rightarrow> EventID option \<times> world" where
  "RecoverWithContext E p r err w =
     (report_id E p r err, w\<lparr>trace := trace w @ [Hub_RecoverWithContext p r err]\<rparr>)"

text \<open>
  Modelled from the spec: \<^verbatim>\<open>Hub.Flush\<close> is missing. It takes a timeout and waits
  until the submissions are delivered or the timeout has elapsed.
\<close>

definition Flush :: "hub_ref \<Rightarrow> Duration \<Rightarrow> world \<Rightarrow> world" where
  "Flush p d w = w\<lparr>trace := trace w @ [Hub_Flush p d]\<rparr>"

text \<open>\<^verbatim>\<open>ctx.Locals(key, value)\<close> of fiber stores the value in the request's store.\<close>

definition Locals_set :: "string \<Rightarrow> local_value \<Rightarrow> world \<Rightarrow> world" where
  "Locals_set k v w = w\<lparr>request := (request w)\<lparr>ctx_Locals := (ctx_Locals (request w))(k \<mapsto> v)\<rparr>\<rparr>"

subsection \<open>\<^verbatim>\<open>convert\<close>\<close>

text \<open>
  \<^verbatim>\<open>http.Header\<close> is a map from the canonical key to the list of values:
  \<^verbatim>\<open>Add\<close> appends, \<^verbatim>\<open>Get\<close> reads the first value (the empty string when there
  is none), \<^verbatim>\<open>Set\<close> replaces the list. \<^verbatim>\<open>Request.AddCookie\<close> rewrites the
  \<^verbatim>\<open>Cookie\<close> entry, joining with \<^verbatim>\<open>"; "\<close>.
\<close>

definition Header_Add ::
  "env \<Rightarrow> (string \<rightharpoonup> string list) \<Rightarrow> string \<Rightarrow> string \<Rightarrow> (string \<rightharpoonup> string list)" where
  "Header_Add E h k v =
     h(CanonicalMIMEHeaderKey E k \<mapsto>
         (case h (CanonicalMIMEHeaderKey E k) of None \<Rightarrow> [] | Some vs \<Rightarrow> vs) @ [v])"

definition Header_Get :: "env \<Rightarrow> (string \<rightharpoonup> string list) \<Rightarrow> string \<Rightarrow> string" where
  "Header_Get E h k =
     (case h (CanonicalMIMEHeaderKey E k) of Some (v # vs) \<Rightarrow> v | _ \<Rightarrow> [])"

definition Header_Set ::
  "env \<Rightarrow> (string \<rightharpoonup> string list) \<Rightarrow> string \<Rightarrow> string \<Rightarrow> (string \<rightharpoonup> string list)" where
  "Header_Set E h k v = h(CanonicalMIMEHeaderKey E k \<mapsto> [v])"

definition AddCookie ::
  "env \<Rightarrow> (string \<rightharpoonup> string list) \<Rightarrow> string \<times> string \<Rightarrow> (string \<rightharpoonup> string list)" where
  "AddCookie E h c =
     (let s = cookie_text E (fst c) (snd c);
          old = Header_Get E h ''Cookie''
      in if old \<noteq> [] then Header_Set E h ''Cookie'' (old @ ''; '' @ s)
         else Header_Set E h ''Cookie'' s)"

text \<open>
  The body of \<^verbatim>\<open>convert\<close>, lines 71 to 100; \<open>Inl\<close> is a panic. The error of
  \<^verbatim>\<open>url.Parse\<close> is dropped and \<^verbatim>\<open>r.URL\<close> is then nil, so the assignment to
  \<^verbatim>\<open>r.URL.RawQuery\<close> on line 95 dereferences a nil pointer.
\<close>

definition convert_body :: "env \<Rightarrow> RequestCtx \<Rightarrow> go_value + http_Request" where
  "convert_body E ctx =
     (let url = url_Parse E (uri_Scheme ctx @ ''://'' @ uri_Host ctx @ uri_Path ctx);
          h0 = Header_Add E Map.empty ''Host'' (uri_Host ctx);
          h1 = foldl (\<lambda>h kv. Header_Add E h (fst kv) (snd kv)) h0 (header_VisitAll ctx);
          h2 = foldl (AddCookie E) h1 (header_VisitAllCookie ctx)
      in case url of
           None \<Rightarrow> Inl nil_dereference
         | Some u \<Rightarrow>
             Inr \<lparr>Method = ctx_Method ctx,
                  Url = Some (u\<lparr>RawQuery := uri_QueryString ctx\<rparr>),
                  Header = h2,
                  Host = uri_Host ctx,
                  RemoteAddr = ctx_RemoteAddr ctx\<rparr>)"

text \<open>
  \<^verbatim>\<open>convert\<close> with its deferred function, lines 65 to 69: a panic of the body is
  recovered and logged, and the function then returns the zero value of its unnamed
  result, a nil \<^verbatim>\<open>*http.Request\<close>.
\<close>

definition convert :: "env \<Rightarrow> world \<Rightarrow> http_Request option \<times> world" where
  "convert E w =
     (case convert_body E (request w) of
        Inl err \<Rightarrow> (None, w\<lparr>trace := trace w @ [Logger_Printf err]\<rparr>)
      | Inr r \<Rightarrow> (Some r, w))"

text \<open>
  The two results of \<^verbatim>\<open>convert\<close> as functions of the native request: the request it
  returns, and the lines it logs.
\<close>

definition snapshot :: "env \<Rightarrow> RequestCtx \<Rightarrow> http_Request option" where
  "snapshot E ctx = (case convert_body E ctx of Inl err \<Rightarrow> None | Inr r \<Rightarrow> Some r)"

definition snapshot_log :: "env \<Rightarrow> RequestCtx \<Rightarrow> event list" where
  "snapshot_log E ctx = (case convert_body E ctx of Inl err \<Rightarrow> [Logger_Printf err] | Inr r \<Rightarrow> [])"

subsection \<open>\<^verbatim>\<open>recoverWithSentry\<close> and \<^verbatim>\<open>handle\<close>\<close>

text \<open>
  Lines 114 to 129. \<open>recovered\<close> is what \<^verbatim>\<open>recover()\<close> returns; the result is the
  panic that leaves the function, if any. With a nil \<open>r\<close>, \<^verbatim>\<open>r.Context()\<close> reads
  a field through the nil pointer and panics before anything is submitted.
\<close>

definition recoverWithSentry ::
  "env \<Rightarrow> handler \<Rightarrow> hub_ref \<Rightarrow> http_Request option \<Rightarrow> go_value option \<Rightarrow> world
     \<Rightarrow> go_value option \<times> world" where
  "recoverWithSentry E h hub r recovered w =
     (case recovered of
        None \<Rightarrow> (None, w)
      | Some err \<Rightarrow>
          (if \<not> isBrokenPipeError E err then
             (case r of
                None \<Rightarrow> (Some nil_dereference, w)
              | Some req \<Rightarrow>
                  (let (eventID, w1) = RecoverWithContext E hub req err w;
                       w2 = (if eventID \<noteq> None \<and> waitForDelivery h
                             then Flush hub (timeout h) w1 else w1)
                   in (if repanic h then Some err else None, w2)))
           else (if repanic h then Some err else None, w)))"

text \<open>How a call ends: it returns its \<^verbatim>\<open>error\<close> (nil is \<open>None\<close>) or it panics.\<close>

datatype outcome =
    Returned "go_error option"
  | Panicked go_value

text \<open>
  Lines 104 to 110 of \<^verbatim>\<open>handle\<close>, all that runs before \<^verbatim>\<open>ctx.Next()\<close>: the hub,
  the snapshot bound to the deferred call (its arguments are evaluated at the
  \<^verbatim>\<open>defer\<close> statement) and the world handed to the rest of the chain.
\<close>

definition handle_entry :: "env \<Rightarrow> world \<Rightarrow> hub_ref \<times> http_Request option \<times> world" where
  "handle_entry E w0 =
     (let (hub, w1) = (case sentry_GetHubFromContext w0 of
                         Some p \<Rightarrow> (p, w0)
                       | None \<Rightarrow> Hub_Clone (CurrentHub w0) w0);
          (r1, w2) = convert E w1;
          w3 = Scope_SetRequest hub r1 w2;
          w4 = Locals_set valuesKey (HubValue (Some hub)) w3;
          (r2, w5) = convert E w4
      in (hub, r2, w5))"

text \<open>
  \<^verbatim>\<open>handle\<close>: \<open>Next\<close> is \<^verbatim>\<open>ctx.Next()\<close>, the rest of the chain. The deferred
  \<^verbatim>\<open>recoverWithSentry\<close> runs when \<open>Next\<close> has returned or panicked; a panic that it
  stops makes \<^verbatim>\<open>handle\<close> return the zero value, a nil error.
\<close>

definition handle ::
  "env \<Rightarrow> handler \<Rightarrow> (world \<Rightarrow> outcome \<times> world) \<Rightarrow> world \<Rightarrow> outcome \<times> world" where
  "handle E h Next w0 =
     (let (hub, r, w5) = handle_entry E w0;
          (res, w6) = Next w5
      in case res of
           Returned e \<Rightarrow>
             (case recoverWithSentry E h hub r None w6 of
                (None, w7) \<Rightarrow> (Returned e, w7)
              | (Some p, w7) \<Rightarrow> (Panicked p, w7))
         | Panicked v \<Rightarrow>
             (case recoverWithSentry E h hub r (Some v) w6 of
                (None, w7) \<Rightarrow> (Returned None, w7)
              | (Some p, w7) \<Rightarrow> (Panicked p, w7)))"

text \<open>\<^verbatim>\<open>New\<close> returns the method value \<^verbatim>\<open>(&handler{...}).handle\<close>.\<close>

definition New ::
  "env \<Rightarrow> Options list \<Rightarrow> (world \<Rightarrow> outcome \<times> world) \<Rightarrow> world \<Rightarrow> outcome \<times> world" where
  "New E options = handle E (New_handler options)"

subsection \<open>\<^verbatim>\<open>GetHubFromContext\<close>\<close>


subsection \<open>Reading a trace and a header scan\<close>

text \<open>
  The requests submitted in a trace, in order, and the values that a scan of native
  headers files under the canonical form of a key.
\<close>

fun submitted :: "event list \<Rightarrow> http_Request list" where
  "submitted [] = []"
| "submitted (Hub_RecoverWithContext p r v # es) = r # submitted es"
| "submitted (e # es) = submitted es"


subsection \<open>Concrete inputs\<close>

text \<open>
  The inputs at which the theorems below are evaluated. \<open>example_env\<close> stands for the
  Go libraries on the strings that occur in these inputs only: \<^verbatim>\<open>strings.ToLower\<close> on
  ASCII text; \<^verbatim>\<open>url.Parse\<close>, which accepts \<^verbatim>\<open>http://example.com/foo\<close> and rejects
  \<^verbatim>\<open>http://example.com/100%\<close> (an invalid URL escape); header keys that are already
  canonical; cookie names and values that need no sanitising; a client that accepts
  every report.
\<close>

definition lower_byte :: "char \<Rightarrow> char" where
  "lower_byte c =
     (case map_of (zip ''ABCDEFGHIJKLMNOPQRSTUVWXYZ'' ''abcdefghijklmnopqrstuvwxyz'') c of
        Some l \<Rightarrow> l
      | None \<Rightarrow> c)"

definition example_url_Parse :: "string \<Rightarrow> URL option" where
  "example_url_Parse s =
     (if s = ''http://example.com/foo''
      then Some \<lparr>Scheme = ''http'', URL_Host = ''example.com'', Path = ''/foo'', RawQuery = []\<rparr>
      else None)"

definition example_env :: env where
  "example_env =
     \<lparr>ToLower = map lower_byte,
      url_Parse = example_url_Parse,
      CanonicalMIMEHeaderKey = (\<lambda>k. k),
      cookie_text = (\<lambda>n v. n @ ''='' @ v),
      report_id = (\<lambda>p r err. Some ''event-1'')\<rparr>"

definition example_request :: RequestCtx where
  "example_request =
     \<lparr>ctx_Method = ''GET'', uri_Scheme = ''http'', uri_Host = ''example.com'',
      uri_Path = ''/foo'', uri_QueryString = ''x=1'',
      header_VisitAll = [(''Host'', ''example.com''), (''X-Test'', ''a''), (''Cookie'', ''c=v'')],
      header_VisitAllCookie = [(''c'', ''v'')],
      ctx_RemoteAddr = ''10.0.0.1:4000'',
      ctx_Locals = Map.empty,
      ctx_HubValue = None\<rparr>"

definition example_hub :: Hub where
  "example_hub = \<lparr>hub_client = 0, scope_tags = [], scope_request = None\<rparr>"

definition example_world :: world where
  "example_world =
     \<lparr>hubs = (\<lambda>p. example_hub), next_hub = 1, CurrentHub = 0,
      request = example_request, trace = []\<rparr>"

definition example_broken_pipe :: go_value where
  "example_broken_pipe =
     ErrorValue (OpError \<lparr>Op = ''write'', Net = ''tcp'', Source = None, Addr = None\<rparr>
                  (SyscallError ''write'' (OtherError ''Broken Pipe'')))"

definition zero_Options :: Options where
  "zero_Options = \<lparr>Repanic = False, WaitForDelivery = False, Timeout = 0\<rparr>"

definition default_handler :: handler where
  "default_handler = \<lparr>repanic = True, waitForDelivery = True, timeout = 2 * Second\<rparr>"

definition dropping_env :: env where
  "dropping_env = example_env\<lparr>report_id := (\<lambda>p r err. None)\<rparr>"

definition example_snapshot :: http_Request where
  "example_snapshot =
     \<lparr>Method = ''GET'',
      Url = Some \<lparr>Scheme = ''http'', URL_Host = ''example.com'', Path = ''/foo'', RawQuery = ''x=1''\<rparr>,
      Header = Map.empty, Host = ''example.com'', RemoteAddr = ''10.0.0.1:4000''\<rparr>"

definition outer_hub_world :: world where
  "outer_hub_world =
     example_world\<lparr>next_hub := 2, request := example_request\<lparr>ctx_HubValue := Some 1\<rparr>\<rparr>"


definition bad_url_world :: world where
  "bad_url_world = example_world\<lparr>request := example_request\<lparr>uri_Path := ''/100%''\<rparr>\<rparr>"


definition panic_with :: "go_value \<Rightarrow> world \<Rightarrow> outcome \<times> world" where
  "panic_with v w = (Panicked v, w)"

section \<open>Properties\<close>

text \<open>The definitions, gathered for evaluation at concrete inputs.\<close>

lemmas example_defs = example_env_def example_world_def example_request_def
  example_url_Parse_def example_hub_def lower_byte_def example_broken_pipe_def panic_with_def

lemmas model_defs = handle_def handle_entry_def convert_def convert_body_def
  sentry_GetHubFromContext_def Hub_Clone_def Scope_SetRequest_def Locals_set_def
  recoverWithSentry_def RecoverWithContext_def Flush_def isBrokenPipeError_def
  Header_Add_def Header_Get_def Header_Set_def AddCookie_def

subsection \<open>The library functions\<close>

lemma HasPrefix_iff: "HasPrefix s p \<longleftrightarrow> (\<exists>q. s = p @ q)"
  by (induction s p rule: HasPrefix.induct) auto

lemma Contains_iff: "Contains s sub \<longleftrightarrow> (\<exists>p q. s = p @ sub @ q)"
proof (induction s)
  case Nil
  then show ?case by auto
next
  case (Cons c s)
  show ?case
  proof
    assume "Contains (c # s) sub"
    then consider "HasPrefix (c # s) sub" | "Contains s sub" by auto
    then show "\<exists>p q. c # s = p @ sub @ q"
    proof cases
      case 1
      then obtain q where "c # s = sub @ q" by (auto simp: HasPrefix_iff)
      then have "c # s = [] @ sub @ q" by simp
      then show ?thesis by blast
    next
      case 2
      then obtain p q where "s = p @ sub @ q" using Cons.IH by blast
      then have "c # s = (c # p) @ sub @ q" by simp
      then show ?thesis by blast
    qed
  next
    assume "\<exists>p q. c # s = p @ sub @ q"
    then obtain p q where pq: "c # s = p @ sub @ q" by blast
    show "Contains (c # s) sub"
    proof (cases p)
      case Nil
      then have "HasPrefix (c # s) sub" using pq by (auto simp: HasPrefix_iff)
      then show ?thesis by simp
    next
      case (Cons a p')
      then have "s = p' @ sub @ q" using pq by simp
      then have "Contains s sub" using Cons.IH by blast
      then show ?thesis by simp
    qed
  qed
qed

subsection \<open>\<^verbatim>\<open>recoverWithSentry\<close>, case by case\<close>

lemma recover_none: "recoverWithSentry E h hub r None w = (None, w)"
  by (simp add: recoverWithSentry_def)

lemma recover_benign:
  "isBrokenPipeError E err \<Longrightarrow>
   recoverWithSentry E h hub r (Some err) w = (if repanic h then Some err else None, w)"
  by (simp add: recoverWithSentry_def)

lemma recover_nil_request:
  "\<not> isBrokenPipeError E err \<Longrightarrow>
   recoverWithSentry E h hub None (Some err) w = (Some nil_dereference, w)"
  by (simp add: recoverWithSentry_def)

lemma recover_report:
  "\<not> isBrokenPipeError E err \<Longrightarrow>
   recoverWithSentry E h hub (Some req) (Some err) w =
     (if repanic h then Some err else None,
      w\<lparr>trace := trace w @ Hub_RecoverWithContext hub req err #
           (if report_id E hub req err \<noteq> None \<and> waitForDelivery h
            then [Hub_Flush hub (timeout h)] else [])\<rparr>)"
  by (simp add: recoverWithSentry_def RecoverWithContext_def Flush_def)

subsection \<open>\<^verbatim>\<open>convert\<close> and \<^verbatim>\<open>handle\<close>, step by step\<close>

lemma convert_eq:
  "convert E w = (snapshot E (request w), w\<lparr>trace := trace w @ snapshot_log E (request w)\<rparr>)"
  by (simp add: convert_def snapshot_def snapshot_log_def split: sum.splits)

lemma convert_body_Locals [simp]: "convert_body E (ctx\<lparr>ctx_Locals := l\<rparr>) = convert_body E ctx"
  by (simp add: convert_body_def Let_def split: option.splits)

lemma snapshot_Locals [simp]: "snapshot E (ctx\<lparr>ctx_Locals := l\<rparr>) = snapshot E ctx"
  by (simp add: snapshot_def)

lemma snapshot_log_Locals [simp]: "snapshot_log E (ctx\<lparr>ctx_Locals := l\<rparr>) = snapshot_log E ctx"
  by (simp add: snapshot_log_def)

lemma handle_entry_existing:
  assumes "sentry_GetHubFromContext w0 = Some p"
  shows "handle_entry E w0 =
           (p, snapshot E (request w0),
            w0\<lparr>hubs := (hubs w0)(p := (hubs w0 p)\<lparr>scope_request := snapshot E (request w0)\<rparr>),
               request := (request w0)\<lparr>ctx_Locals :=
                 (ctx_Locals (request w0))(valuesKey \<mapsto> HubValue (Some p))\<rparr>,
               trace := trace w0 @ snapshot_log E (request w0) @ snapshot_log E (request w0)\<rparr>)"
  using assms
  by (simp add: handle_entry_def convert_eq Scope_SetRequest_def Locals_set_def)

lemma handle_entry_fresh:
  assumes "sentry_GetHubFromContext w0 = None"
  shows "handle_entry E w0 =
           (next_hub w0, snapshot E (request w0),
            w0\<lparr>hubs := (hubs w0)(next_hub w0 :=
                 (hubs w0 (CurrentHub w0))\<lparr>scope_request := snapshot E (request w0)\<rparr>),
               next_hub := Suc (next_hub w0),
               request := (request w0)\<lparr>ctx_Locals :=
                 (ctx_Locals (request w0))(valuesKey \<mapsto> HubValue (Some (next_hub w0)))\<rparr>,
               trace := trace w0 @ snapshot_log E (request w0) @ snapshot_log E (request w0)\<rparr>)"
  using assms
  by (simp add: handle_entry_def convert_eq Scope_SetRequest_def Locals_set_def Hub_Clone_def)

lemma handle_panic:
  "handle_entry E w0 = (hub, r, w5) \<Longrightarrow> Next w5 = (Panicked v, w6) \<Longrightarrow>
   handle E h Next w0 =
     (case recoverWithSentry E h hub r (Some v) w6 of
        (None, w7) \<Rightarrow> (Returned None, w7)
      | (Some p, w7) \<Rightarrow> (Panicked p, w7))"
  by (simp add: handle_def)

lemma handle_return:
  "handle_entry E w0 = (hub, r, w5) \<Longrightarrow> Next w5 = (Returned e, w6) \<Longrightarrow>
   handle E h Next w0 = (Returned e, w6)"
  by (simp add: handle_def recover_none)

lemma isBrokenPipeError_iff:
  "isBrokenPipeError E err \<longleftrightarrow>
     (\<exists>f sc e. err = ErrorValue (OpError f (SyscallError sc e))
        \<and> (Contains (ToLower E (sc @ '': '' @ Error e)) ''broken pipe''
           \<or> Contains (ToLower E (sc @ '': '' @ Error e)) ''connection reset by peer''))"
  by (auto simp: isBrokenPipeError_def split: go_value.splits go_error.splits)

lemma submitted_append [simp]: "submitted (xs @ ys) = submitted xs @ submitted ys"
  by (induction xs rule: submitted.induct) simp_all

lemma snapshot_None_iff:
  "snapshot E ctx = None \<longleftrightarrow> url_Parse E (uri_Scheme ctx @ ''://'' @ uri_Host ctx @ uri_Path ctx) = None"
  by (simp add: snapshot_def convert_body_def Let_def split: option.splits)

lemma snapshot_log_cases:
  "snapshot_log E ctx = (if snapshot E ctx = None then [Logger_Printf nil_dereference] else [])"
  by (simp add: snapshot_def snapshot_log_def convert_body_def Let_def split: option.splits)

lemma handle_entry_snapshot:
  assumes "handle_entry E w0 = (hub, r, w5)"
  shows "r = snapshot E (request w0)"
    and "scope_request (hubs w5 hub) = snapshot E (request w0)"
    and "trace w5 = trace w0 @ snapshot_log E (request w0) @ snapshot_log E (request w0)"
  using assms
  by (cases "sentry_GetHubFromContext w0"; simp add: handle_entry_fresh handle_entry_existing; fastforce)+

lemma handle_reports_failure:
  assumes "handle_entry E w0 = (hub, Some req, w5)" and "Next w5 = (Panicked err, w6)"
    and "\<not> isBrokenPipeError E err"
  shows "handle E h Next w0 =
           (if repanic h then Panicked err else Returned None,
            w6\<lparr>trace := trace w6 @ Hub_RecoverWithContext hub req err #
                 (if report_id E hub req err \<noteq> None \<and> waitForDelivery h
                  then [Hub_Flush hub (timeout h)] else [])\<rparr>)"
  using assms handle_panic [of E w0 hub "Some req" w5 Next err w6 h]
  by (simp add: recover_report)

lemma handle_nil_snapshot:
  assumes "handle_entry E w0 = (hub, None, w5)" and "Next w5 = (Panicked err, w6)"
    and "\<not> isBrokenPipeError E err"
  shows "handle E h Next w0 = (Panicked nil_dereference, w6)"
  using assms handle_panic [of E w0 hub None w5 Next err w6 h]
  by (simp add: recover_nil_request)





subsection \<open>\<^verbatim>\<open>New\<close> and the defaults\<close>

lemma New_handler_default: "New_handler [] = default_handler"
  by (simp add: New_handler_def default_handler_def Second_def)

lemma New_handler_single:
  "New_handler [opt] =
     \<lparr>repanic = Repanic opt, waitForDelivery = WaitForDelivery opt,
      timeout = (if Timeout opt = 0 then 2 * Second else Timeout opt)\<rparr>"
  by (simp add: New_handler_def Let_def)

lemma New_handler_many: "2 \<le> length options \<Longrightarrow> New_handler options = default_handler"
proof -
  assume len: "2 \<le> length options"
  then obtain a b rest where "options = a # b # rest"
    by (cases options; cases "tl options") auto
  then show ?thesis
    by (simp add: New_handler_def default_handler_def Second_def)
qed

text \<open>
  C3, as stated, fails: \<^verbatim>\<open>New(Options{})\<close> takes the zero value as it is, so the handler
  has \<open>repanic = False\<close> and \<open>waitForDelivery = False\<close>. On a panicking chain it stops the
  panic and returns nil, where the handler of \<^verbatim>\<open>New()\<close> raises it again.
\<close>

theorem New_zero_Options_counterexample:
  "New_handler [zero_Options] \<noteq> \<lparr>repanic = True, waitForDelivery = True, timeout = 2 * Second\<rparr>
   \<and> fst (New example_env [zero_Options] (panic_with (StringValue ''y tho'')) example_world)
       = Returned None
   \<and> fst (New example_env [] (panic_with (StringValue ''y tho'')) example_world)
       = Panicked (StringValue ''y tho'')"
  by (simp add: New_def New_handler_def zero_Options_def model_defs example_defs Let_def)

text \<open>
  C3, amended: of an all-zero \<^verbatim>\<open>Options\<close> only the timeout is replaced by the default
  of 2 seconds; both flags stay false. A single \<^verbatim>\<open>Options\<close> value is taken field by
  field, a zero timeout becoming 2 seconds, and \<^verbatim>\<open>New()\<close> without an argument gives
  the defaults \<open>repanic = True\<close>, \<open>waitForDelivery = True\<close>, 2 seconds.
\<close>

theorem New_zero_Options:
  "New_handler [zero_Options]
     = \<lparr>repanic = False, waitForDelivery = False, timeout = 2 * Second\<rparr>
   \<and> New E [zero_Options]
     = handle E \<lparr>repanic = False, waitForDelivery = False, timeout = 2 * Second\<rparr>
   \<and> New_handler [opt]
     = \<lparr>repanic = Repanic opt, waitForDelivery = WaitForDelivery opt,
        timeout = (if Timeout opt = 0 then 2 * Second else Timeout opt)\<rparr>
   \<and> New_handler [] = \<lparr>repanic = True, waitForDelivery = True, timeout = 2 * Second\<rparr>"
  using New_handler_single [of opt] New_handler_single [of zero_Options] New_handler_default
  by (simp add: New_def zero_Options_def default_handler_def)

text \<open>
  C10: with two or more \<^verbatim>\<open>Options\<close> values the length is not 1, none of them is read,
  and the handler is the one of \<^verbatim>\<open>New()\<close>: \<open>repanic = True\<close>,
  \<open>waitForDelivery = True\<close>, a timeout of 2 seconds.
\<close>

theorem New_several_options_ignored:
  assumes "2 \<le> length options"
  shows "New_handler options = \<lparr>repanic = True, waitForDelivery = True, timeout = 2 * Second\<rparr>
         \<and> New_handler options = New_handler []
         \<and> New E options = New E []"
  using New_handler_many [OF assms] New_handler_default
  by (simp add: New_def default_handler_def)

theorem New_several_options_ignored_witness:
  "New_handler [zero_Options, \<lparr>Repanic = False, WaitForDelivery = True, Timeout = 5 * Second\<rparr>]
     = \<lparr>repanic = True, waitForDelivery = True, timeout = 2000000000\<rparr>
   \<and> New example_env [zero_Options, \<lparr>Repanic = False, WaitForDelivery = True, Timeout = 5 * Second\<rparr>]
     = New example_env []"
  using New_several_options_ignored
          [of "[zero_Options, \<lparr>Repanic = False, WaitForDelivery = True, Timeout = 5 * Second\<rparr>]"
              example_env]
  by (simp add: Second_def)

subsection \<open>Benign network failures\<close>

text \<open>
  C2: a failure is classified as benign exactly when it is a \<^verbatim>\<open>*net.OpError\<close> whose
  \<^verbatim>\<open>Err\<close> is a \<^verbatim>\<open>*os.SyscallError\<close> with a lower-cased message containing
  \<^verbatim>\<open>broken pipe\<close> or \<^verbatim>\<open>connection reset by peer\<close>. For such a failure
  \<^verbatim>\<open>recoverWithSentry\<close> leaves the world as it is (nothing is submitted, nothing is
  flushed) and raises the failure again exactly when \<open>repanic\<close> is set; so does
  \<^verbatim>\<open>handle\<close> when the rest of the chain panics with it.
\<close>

theorem benign_failure_not_reported:
  "(isBrokenPipeError E err \<longleftrightarrow>
      (\<exists>f sc e. err = ErrorValue (OpError f (SyscallError sc e))
         \<and> (Contains (ToLower E (sc @ '': '' @ Error e)) ''broken pipe''
            \<or> Contains (ToLower E (sc @ '': '' @ Error e)) ''connection reset by peer'')))
   \<and> (isBrokenPipeError E err \<longrightarrow>
        recoverWithSentry E h hub r (Some err) w = (if repanic h then Some err else None, w))
   \<and> (isBrokenPipeError E err \<and> handle_entry E w0 = (hub, r, w5) \<and> Next w5 = (Panicked err, w6) \<longrightarrow>
        handle E h Next w0 = (if repanic h then Panicked err else Returned None, w6))"
proof (intro conjI impI)
  show "isBrokenPipeError E err \<longleftrightarrow>
      (\<exists>f sc e. err = ErrorValue (OpError f (SyscallError sc e))
         \<and> (Contains (ToLower E (sc @ '': '' @ Error e)) ''broken pipe''
            \<or> Contains (ToLower E (sc @ '': '' @ Error e)) ''connection reset by peer''))"
    by (rule isBrokenPipeError_iff)
next
  assume "isBrokenPipeError E err"
  then show "recoverWithSentry E h hub r (Some err) w = (if repanic h then Some err else None, w)"
    by (rule recover_benign)
next
  assume a: "isBrokenPipeError E err \<and> handle_entry E w0 = (hub, r, w5) \<and> Next w5 = (Panicked err, w6)"
  then show "handle E h Next w0 = (if repanic h then Panicked err else Returned None, w6)"
    by (simp add: handle_panic [of E w0 hub r w5 Next err w6] recover_benign)
qed

theorem benign_failure_not_reported_witness:
  "isBrokenPipeError example_env example_broken_pipe
   \<and> handle example_env default_handler (panic_with example_broken_pipe) example_world
       = (Panicked example_broken_pipe, snd (snd (handle_entry example_env example_world)))
   \<and> trace (snd (handle example_env default_handler (panic_with example_broken_pipe) example_world)) = []
   \<and> handle example_env (New_handler [zero_Options]) (panic_with example_broken_pipe) example_world
       = (Returned None, snd (snd (handle_entry example_env example_world)))"
proof -
  let ?en = "handle_entry example_env example_world"
  have b: "isBrokenPipeError example_env example_broken_pipe"
    by (simp add: isBrokenPipeError_def example_defs)
  have e: "?en = (fst ?en, fst (snd ?en), snd (snd ?en))"
    by simp
  have n: "panic_with example_broken_pipe (snd (snd ?en)) = (Panicked example_broken_pipe, snd (snd ?en))"
    by (simp add: panic_with_def)
  have t: "trace (snd (snd ?en)) = []"
    by (simp add: handle_entry_fresh sentry_GetHubFromContext_def snapshot_log_def
          convert_body_def example_defs)
  from benign_failure_not_reported
         [of example_env example_broken_pipe default_handler "fst ?en" "fst (snd ?en)" _
             example_world "snd (snd ?en)" "panic_with example_broken_pipe" "snd (snd ?en)"]
       benign_failure_not_reported
         [of example_env example_broken_pipe "New_handler [zero_Options]" "fst ?en"
             "fst (snd ?en)" _ example_world "snd (snd ?en)" "panic_with example_broken_pipe"
             "snd (snd ?en)"]
       b e n t
  show ?thesis by (simp add: default_handler_def New_handler_def zero_Options_def)
qed

subsection \<open>The delivery wait\<close>

text \<open>
  C4: when a failure that is not benign is submitted, the calls of
  \<^verbatim>\<open>recoverWithSentry\<close> are the submission, followed by one \<^verbatim>\<open>Flush\<close> with the
  configured timeout exactly when the submission returned an identifier and
  \<open>waitForDelivery\<close> is set. \<^verbatim>\<open>Flush\<close> is the only call that waits; without a
  recovered failure, and without a snapshot, the function calls nothing.
\<close>

theorem flush_iff_accepted_and_waiting:
  assumes "\<not> isBrokenPipeError E err"
  shows "trace (snd (recoverWithSentry E h hub (Some req) (Some err) w))
           = trace w @ Hub_RecoverWithContext hub req err #
               (if report_id E hub req err \<noteq> None \<and> waitForDelivery h
                then [Hub_Flush hub (timeout h)] else [])
         \<and> (Hub_Flush hub (timeout h)
               \<in> set (drop (length (trace w))
                        (trace (snd (recoverWithSentry E h hub (Some req) (Some err) w))))
             \<longleftrightarrow> report_id E hub req err \<noteq> None \<and> waitForDelivery h)
         \<and> trace (snd (recoverWithSentry E h hub r None w)) = trace w
         \<and> trace (snd (recoverWithSentry E h hub None (Some err) w)) = trace w"
  using assms
  by (simp add: recover_report recover_none recover_nil_request)

theorem flush_iff_accepted_and_waiting_witness:
  "trace (snd (recoverWithSentry example_env default_handler 1 (Some example_snapshot)
                 (Some (StringValue ''y tho'')) example_world))
     = [Hub_RecoverWithContext 1 example_snapshot (StringValue ''y tho''), Hub_Flush 1 2000000000]
   \<and> trace (snd (recoverWithSentry dropping_env default_handler 1 (Some example_snapshot)
                 (Some (StringValue ''y tho'')) example_world))
     = [Hub_RecoverWithContext 1 example_snapshot (StringValue ''y tho'')]
   \<and> trace (snd (recoverWithSentry example_env (New_handler [zero_Options]) 1 (Some example_snapshot)
                 (Some (StringValue ''y tho'')) example_world))
     = [Hub_RecoverWithContext 1 example_snapshot (StringValue ''y tho'')]"
proof -
  have nb: "\<not> isBrokenPipeError example_env (StringValue ''y tho'')"
       "\<not> isBrokenPipeError dropping_env (StringValue ''y tho'')"
    by (simp_all add: isBrokenPipeError_def)
  have t: "trace example_world = []"
    by (simp add: example_world_def)
  show ?thesis
    using flush_iff_accepted_and_waiting [OF nb(1), of default_handler 1 example_snapshot example_world]
          flush_iff_accepted_and_waiting [OF nb(2), of default_handler 1 example_snapshot example_world]
          flush_iff_accepted_and_waiting [OF nb(1), of "New_handler [zero_Options]" 1 example_snapshot example_world]
          t
    by (simp add: default_handler_def dropping_env_def example_env_def New_handler_def
          zero_Options_def Second_def)
qed

subsection \<open>A failure on a request whose URL does not parse\<close>

text \<open>
  C1 at a failing input: the request's path is \<^verbatim>\<open>/100%\<close>, the rest of the chain
  panics with \<^verbatim>\<open>"y tho"\<close>, and \<open>repanic\<close> is set. Both calls of \<^verbatim>\<open>convert\<close> return
  nil, \<^verbatim>\<open>r.Context()\<close> panics in \<^verbatim>\<open>recoverWithSentry\<close>, nothing is submitted, and
  the panic that leaves \<^verbatim>\<open>handle\<close> is the nil dereference, not \<^verbatim>\<open>"y tho"\<close>.
\<close>

theorem failure_with_unparsable_url_not_reported:
  "fst (handle example_env default_handler (panic_with (StringValue ''y tho'')) bad_url_world)
     = Panicked nil_dereference
   \<and> trace (snd (handle example_env default_handler (panic_with (StringValue ''y tho'')) bad_url_world))
     = [Logger_Printf nil_dereference, Logger_Printf nil_dereference]
   \<and> repanic default_handler"
  by (simp add: model_defs example_defs default_handler_def bad_url_world_def Let_def)

text \<open>
  Where \<^verbatim>\<open>convert\<close> returned a request, the property holds: a failure that is not
  benign is submitted once, with the snapshot bound at entry, the flush follows as
  configured, and the failure itself is raised again exactly when \<open>repanic\<close> is set.
\<close>

theorem failure_reported_once_and_reraised:
  assumes "handle_entry E w0 = (hub, Some req, w5)" and "Next w5 = (Panicked err, w6)"
    and "\<not> isBrokenPipeError E err"
  shows "fst (handle E h Next w0) = (if repanic h then Panicked err else Returned None)
         \<and> trace (snd (handle E h Next w0))
             = trace w6 @ Hub_RecoverWithContext hub req err #
                 (if report_id E hub req err \<noteq> None \<and> waitForDelivery h
                  then [Hub_Flush hub (timeout h)] else [])"
  using handle_reports_failure [of E w0 hub req w5 Next err w6 h] assms by simp

theorem failure_reported_once_and_reraised_witness:
  "fst (handle example_env default_handler (panic_with (StringValue ''y tho'')) example_world)
     = Panicked (StringValue ''y tho'')
   \<and> map Some (submitted (trace (snd (handle example_env default_handler
                                         (panic_with (StringValue ''y tho'')) example_world))))
     = [fst (convert example_env example_world)]"
proof -
  let ?e = "handle_entry example_env example_world"
  have s: "snapshot example_env example_request \<noteq> None"
    by (simp add: snapshot_None_iff example_defs)
  then obtain q where q: "snapshot example_env example_request = Some q"
    by blast
  have e: "?e = (fst ?e, Some q, snd (snd ?e))"
    using q
    by (simp add: handle_entry_fresh sentry_GetHubFromContext_def example_world_def
          example_request_def)
  have n: "panic_with (StringValue ''y tho'') (snd (snd ?e))
             = (Panicked (StringValue ''y tho''), snd (snd ?e))"
    by (simp add: panic_with_def)
  have nb: "\<not> isBrokenPipeError example_env (StringValue ''y tho'')"
    by (simp add: isBrokenPipeError_def)
  have c: "fst (convert example_env example_world) = Some q"
    using q by (simp add: convert_eq example_world_def)
  have t: "trace (snd (snd ?e)) = []"
    using q
    by (simp add: handle_entry_fresh sentry_GetHubFromContext_def snapshot_log_cases
          example_world_def example_request_def)
  show ?thesis
    using failure_reported_once_and_reraised
            [of example_env example_world "fst ?e" q "snd (snd ?e)"
                "panic_with (StringValue ''y tho'')" "StringValue ''y tho''" "snd (snd ?e)"
                default_handler]
          e n nb c t
    by (simp add: default_handler_def)
qed

text \<open>
  Where \<^verbatim>\<open>url.Parse\<close> rejects the request's URL, a failure that is not benign is
  never submitted, and \<^verbatim>\<open>handle\<close> panics with the nil dereference whatever
  \<open>repanic\<close> says.
\<close>

theorem nil_snapshot_panics_whatever_repanic:
  assumes "url_Parse E (uri_Scheme (request w0) @ ''://'' @ uri_Host (request w0) @ uri_Path (request w0))
             = None"
    and "Next (snd (snd (handle_entry E w0))) = (Panicked err, w6)"
    and "\<not> isBrokenPipeError E err"
  shows "handle E h Next w0 = (Panicked nil_dereference, w6)"
proof -
  let ?e = "handle_entry E w0"
  have "fst (snd ?e) = None"
    using assms(1) handle_entry_snapshot(1) [of E w0 "fst ?e" "fst (snd ?e)" "snd (snd ?e)"]
    by (simp add: snapshot_None_iff)
  then have "?e = (fst ?e, None, snd (snd ?e))"
    by (metis prod.collapse)
  then show ?thesis
    using handle_nil_snapshot [of E w0 "fst ?e" "snd (snd ?e)" Next err w6 h] assms(2,3)
    by simp
qed

theorem nil_snapshot_panics_whatever_repanic_witness:
  "fst (handle example_env (New_handler [zero_Options]) (panic_with (StringValue ''y tho'')) bad_url_world)
     = Panicked nil_dereference"
proof -
  let ?w5 = "snd (snd (handle_entry example_env bad_url_world))"
  have u: "url_Parse example_env (uri_Scheme (request bad_url_world) @ ''://''
             @ uri_Host (request bad_url_world) @ uri_Path (request bad_url_world)) = None"
    by (simp add: example_defs bad_url_world_def)
  have n: "panic_with (StringValue ''y tho'') ?w5 = (Panicked (StringValue ''y tho''), ?w5)"
    by (simp add: panic_with_def)
  have nb: "\<not> isBrokenPipeError example_env (StringValue ''y tho'')"
    by (simp add: isBrokenPipeError_def)
  show ?thesis
    using nil_snapshot_panics_whatever_repanic
            [of example_env bad_url_world "panic_with (StringValue ''y tho'')"
                "StringValue ''y tho''" ?w5 "New_handler [zero_Options]"]
          u n nb
    by simp
qed

text \<open>
  C6 at the same request: \<^verbatim>\<open>convert\<close> raises nothing, logs the recovered nil
  dereference, and returns nil, not a partly filled request.
\<close>

theorem convert_unparsable_url_returns_nil:
  "convert example_env bad_url_world
     = (None, bad_url_world\<lparr>trace := [Logger_Printf nil_dereference]\<rparr>)"
  by (simp add: convert_def convert_body_def example_defs bad_url_world_def Let_def)

text \<open>
  In general \<^verbatim>\<open>convert\<close> returns nil exactly when \<^verbatim>\<open>url.Parse\<close> rejects the
  string built from scheme, host and path, and it then logs one line.
\<close>

theorem convert_nil_iff_url_unparsable:
  "(fst (convert E w) = None) =
     (url_Parse E (uri_Scheme (request w) @ ''://'' @ uri_Host (request w) @ uri_Path (request w))
        = None)
   \<and> trace (snd (convert E w))
       = trace w @ (if fst (convert E w) = None then [Logger_Printf nil_dereference] else [])"
  by (simp add: convert_eq snapshot_None_iff snapshot_log_cases)

subsection \<open>The hub of a request\<close>

text \<open>
  C5, as stated, fails: with a hub at address 1 in the outer context, the hub stored for
  the request is that same hub, and no hub is allocated.
\<close>

theorem attacher_reuses_outer_hub_counterexample:
  "sentry_GetHubFromContext outer_hub_world = Some 1
   \<and> ctx_Locals (request (snd (snd (handle_entry example_env outer_hub_world)))) valuesKey
       = Some (HubValue (Some 1))
   \<and> next_hub (snd (snd (handle_entry example_env outer_hub_world))) = next_hub outer_hub_world"
  by (simp add: handle_entry_existing sentry_GetHubFromContext_def outer_hub_world_def
        example_world_def example_request_def)

text \<open>
  C5, amended: the hub stored under \<^verbatim>\<open>"sentry"\<close> is the hub of the outer context
  itself when there is one, and no clone is made; otherwise it is a newly allocated clone
  of the current hub, with the client and the tags of the current hub, distinct from it,
  and the current hub is left as it was.
\<close>

theorem attacher_hub:
  assumes "handle_entry E w0 = (hub, r, w5)"
  shows "ctx_Locals (request w5) valuesKey = Some (HubValue (Some hub))
         \<and> (case sentry_GetHubFromContext w0 of
              Some p \<Rightarrow> hub = p \<and> next_hub w5 = next_hub w0
            | None \<Rightarrow>
                hub = next_hub w0 \<and> next_hub w5 = Suc (next_hub w0)
                \<and> hub_client (hubs w5 hub) = hub_client (hubs w0 (CurrentHub w0))
                \<and> scope_tags (hubs w5 hub) = scope_tags (hubs w0 (CurrentHub w0))
                \<and> (if CurrentHub w0 < next_hub w0
                    then hub \<noteq> CurrentHub w0 \<and> hubs w5 (CurrentHub w0) = hubs w0 (CurrentHub w0)
                    else True))"
proof (cases "sentry_GetHubFromContext w0")
  case None
  with assms show ?thesis
    by (auto simp: handle_entry_fresh)
next
  case (Some p)
  with assms show ?thesis
    by (auto simp: handle_entry_existing)
qed

theorem attacher_hub_witness:
  "ctx_Locals (request (snd (snd (handle_entry example_env example_world)))) valuesKey
     = Some (HubValue (Some 1))
   \<and> fst (handle_entry example_env example_world) = next_hub example_world
   \<and> fst (handle_entry example_env example_world) \<noteq> CurrentHub example_world
   \<and> fst (handle_entry example_env outer_hub_world) = 1"
proof -
  let ?e = "handle_entry example_env example_world"
  let ?o = "handle_entry example_env outer_hub_world"
  have e: "?e = (fst ?e, fst (snd ?e), snd (snd ?e))" and o: "?o = (fst ?o, fst (snd ?o), snd (snd ?o))"
    by simp_all
  have g: "sentry_GetHubFromContext example_world = None"
          "sentry_GetHubFromContext outer_hub_world = Some 1"
          "CurrentHub example_world = 0" "next_hub example_world = 1"
    by (simp_all add: sentry_GetHubFromContext_def outer_hub_world_def example_world_def example_request_def)
  show ?thesis
    using attacher_hub [OF e] attacher_hub [OF o] g
    by simp
qed

subsection \<open>When the snapshots are built\<close>




subsection \<open>The \<^verbatim>\<open>Host\<close> header\<close>



subsection \<open>The accessor\<close>




end
